theory Spec2Isabelle
  imports Complex_Main "HOL-Library.Sublist"
begin

section \<open>Python values, dictionaries and exceptions\<close>

text \<open>
  The handler of \<^verbatim>\<open>amplify/functions/pdf-processor/handler.py\<close> works on the values
  that \<^verbatim>\<open>json.loads\<close> produces and on dictionaries built from them. A Python \<^verbatim>\<open>str\<close> is
  a \<^typ>\<open>string\<close>, one character of the model standing for one character of the Python
  string; \<^verbatim>\<open>bytes\<close> are a list of 8-bit characters too. A dictionary is an association
  list in insertion order, looked up with \<^const>\<open>map_of\<close>.
\<close>

type_synonym bytes = string

datatype pyval =
    PNone
  | PBool bool
  | PInt int
  | PFloat rat
  | PStr string
  | PList "pyval list"
  | PDict "(string \<times> pyval) list"

type_synonym pydict = "(string \<times> pyval) list"

text \<open>Truthiness, as \<^verbatim>\<open>not x\<close> and \<^verbatim>\<open>if x\<close> read it.\<close>

fun truthy :: "pyval \<Rightarrow> bool" where
  "truthy PNone = False"
| "truthy (PBool b) = b"
| "truthy (PInt i) = (i \<noteq> 0)"
| "truthy (PFloat r) = (r \<noteq> 0)"
| "truthy (PStr s) = (s \<noteq> [])"
| "truthy (PList xs) = (xs \<noteq> [])"
| "truthy (PDict kvs) = (kvs \<noteq> [])"

text \<open>\<^verbatim>\<open>type(x).__name__\<close>, which the interpreter's own error messages quote.\<close>

fun type_name :: "pyval \<Rightarrow> string" where
  "type_name PNone = ''NoneType''"
| "type_name (PBool b) = ''bool''"
| "type_name (PInt i) = ''int''"
| "type_name (PFloat r) = ''float''"
| "type_name (PStr s) = ''str''"
| "type_name (PList xs) = ''list''"
| "type_name (PDict kvs) = ''dict''"

text \<open>
  An exception is its class and the text \<^verbatim>\<open>str(e)\<close>. The classes are the ones the
  \<^verbatim>\<open>except\<close> clauses of the source tell apart: \<open>ValueError\<close> stands for
  \<^verbatim>\<open>ValueError\<close> and its subclasses other than \<^verbatim>\<open>json.JSONDecodeError\<close>
  (\<^verbatim>\<open>binascii.Error\<close>, \<^verbatim>\<open>UnicodeDecodeError\<close>), \<open>OtherException\<close> for every other
  subclass of \<^verbatim>\<open>Exception\<close>.
\<close>

datatype exn_class = JSONDecodeError | ValueError | TypeError | AttributeError | OtherException

datatype exn = Exn (cls: exn_class) (msg: string)

text \<open>\<^verbatim>\<open>except (json.JSONDecodeError, ValueError)\<close>.\<close>

definition is_value_error :: "exn \<Rightarrow> bool" where
  "is_value_error e = (cls e = JSONDecodeError \<or> cls e = ValueError)"

text \<open>\<^verbatim>\<open>d.get(k, default)\<close> on a dictionary.\<close>

definition dict_get :: "pydict \<Rightarrow> string \<Rightarrow> pyval \<Rightarrow> pyval" where
  "dict_get d k dflt = (case map_of d k of None \<Rightarrow> dflt | Some v \<Rightarrow> v)"

text \<open>
  \<^verbatim>\<open>x.get(k, default)\<close> on any value: only a dictionary has the method, every other
  value raises \<^verbatim>\<open>AttributeError\<close>.
\<close>

definition py_get :: "pyval \<Rightarrow> string \<Rightarrow> pyval \<Rightarrow> exn + pyval" where
  "py_get x k dflt =
     (case x of
        PDict d \<Rightarrow> Inr (dict_get d k dflt)
      | _ \<Rightarrow> Inl (Exn AttributeError
                 ([CHR 0x27] @ type_name x @ [CHR 0x27] @ '' object has no attribute ''
                  @ [CHR 0x27] @ ''get'' @ [CHR 0x27])))"

section \<open>String operations\<close>

text \<open>\<^verbatim>\<open>sub in s\<close> on strings: \<open>sub\<close> occurs in \<open>s\<close> as a contiguous run.\<close>

fun str_contains :: "string \<Rightarrow> string \<Rightarrow> bool" where
  "str_contains sub [] = (sub = [])"
| "str_contains sub (c # cs) = (prefix sub (c # cs) \<or> str_contains sub cs)"

text \<open>\<^verbatim>\<open>s.lower()\<close>, on the ASCII letters.\<close>

definition lower_char :: "char \<Rightarrow> char" where
  "lower_char c =
     (let n = (of_char c :: nat) in if 65 \<le> n \<and> n \<le> 90 then char_of (n + 32) else c)"

definition lower :: "string \<Rightarrow> string" where
  "lower s = map lower_char s"

text \<open>\<^verbatim>\<open>s.find(c)\<close>: the index of the first occurrence, \<open>-1\<close> when there is none.\<close>

fun str_find :: "char \<Rightarrow> string \<Rightarrow> int" where
  "str_find c [] = -1"
| "str_find c (x # xs) =
     (if x = c then 0 else (let i = str_find c xs in if i = -1 then -1 else i + 1))"

text \<open>\<^verbatim>\<open>s.rfind(c)\<close>: the index of the last occurrence, \<open>-1\<close> when there is none.\<close>

definition str_rfind :: "char \<Rightarrow> string \<Rightarrow> int" where
  "str_rfind c s =
     (let i = str_find c (rev s) in if i = -1 then -1 else int (length s) - 1 - i)"

text \<open>\<^verbatim>\<open>s[a:b]\<close> for indices that are not negative; empty when \<open>b \<le> a\<close>.\<close>

definition slice :: "string \<Rightarrow> int \<Rightarrow> int \<Rightarrow> string" where
  "slice s a b = drop (nat a) (take (nat b) s)"

section \<open>The library and the inference service\<close>

text \<open>
  What the handler calls but does not define is a parameter of the model: the decoders of
  the standard library and the \<^verbatim>\<open>converse\<close> operation of the Bedrock client. A call that
  can raise returns \<open>Inl\<close> of the exception.

  The prompt texts are constants of the source; the model names them. \<open>SIMPLIFIED\<close>
  is the text of the branch "Using simplified approach for PDF 1.3", \<open>STANDARD\<close> the
  long text of the branch "Using standard approach for modern PDF", and the two
  alternatives are the texts of the approaches named "Simplified prompt" and
  "Different model".
\<close>

datatype prompt_text = SIMPLIFIED | STANDARD | ALT_SIMPLIFIED_PROMPT | ALT_DIFFERENT_MODEL

record request =
  modelId :: string
  promptText :: prompt_text
  docFormat :: string
  docName :: string
  docBytes :: bytes
  maxTokens :: nat
  temperature :: rat

text \<open>
  \<open>converse E n req\<close> is the outcome of the \<open>n\<close>-th call of \<^verbatim>\<open>bedrock.converse\<close> in an
  invocation (counting from 0) when it is sent \<open>req\<close>: \<open>Inr\<close> of the text at
  \<^verbatim>\<open>response['output']['message']['content'][0]['text']\<close>, or \<open>Inl\<close> of the exception
  raised by the call or by reading that text. The source guards the call and the reading
  by the same \<^verbatim>\<open>try\<close>, at the first call and at each retry.
\<close>

record env =
  b64decode :: "pyval \<Rightarrow> exn + bytes"
  utf8_decode :: "bytes \<Rightarrow> exn + string"
  utf8_decode_ignore :: "bytes \<Rightarrow> string"
  json_loads :: "pyval \<Rightarrow> exn + pyval"
  json_dumps :: "pyval \<Rightarrow> string"
  converse :: "nat \<Rightarrow> request \<Rightarrow> exn + string"

definition converse_request :: "prompt_text \<Rightarrow> string \<Rightarrow> bytes \<Rightarrow> request" where
  "converse_request p name pdf_bytes =
     \<lparr> modelId = ''anthropic.claude-3-5-sonnet-20241022-v2:0'',
       promptText = p,
       docFormat = ''pdf'',
       docName = name,
       docBytes = pdf_bytes,
       maxTokens = 2000,
       temperature = 1 / 10 \<rparr>"

section \<open>The extractor\<close>

text \<open>The four-field record that every failure path of the extractor returns.\<close>

definition error_record :: "string \<Rightarrow> pyval" where
  "error_record info =
     PDict [(''debugInfo'', PStr info), (''firstName'', PStr []),
            (''lastName'', PStr []), (''dateOfBirth'', PStr [])]"

text \<open>The first message: the prompt depends on the version text only through "1.3".\<close>

definition first_request :: "string \<Rightarrow> bytes \<Rightarrow> request" where
  "first_request pdf_version pdf_bytes =
     (if str_contains ''1.3'' pdf_version
      then converse_request SIMPLIFIED ''medicalDocument'' pdf_bytes
      else converse_request STANDARD ''patientDocument'' pdf_bytes)"

text \<open>\<^verbatim>\<open>"empty" in r.lower() or "blank" in r.lower()\<close>.\<close>

definition signals_empty :: "string \<Rightarrow> bool" where
  "signals_empty r = (str_contains ''empty'' (lower r) \<or> str_contains ''blank'' (lower r))"

definition alternative_approaches :: "bytes \<Rightarrow> request list" where
  "alternative_approaches pdf_bytes =
     [converse_request ALT_SIMPLIFIED_PROMPT ''patientFile'' pdf_bytes,
      converse_request ALT_DIFFERENT_MODEL ''medicalRecord'' pdf_bytes]"

text \<open>
  The loop over the alternative approaches. \<open>claude_response\<close> is the response held so
  far and \<open>calls\<close> the requests sent so far. An alternative that raises is skipped
  (\<^verbatim>\<open>continue\<close>); one whose text signals emptiness leaves \<open>claude_response\<close> as it is;
  the first one whose text does not replaces it and ends the loop (\<^verbatim>\<open>break\<close>).
\<close>

fun try_alternatives :: "env \<Rightarrow> request list \<Rightarrow> string \<Rightarrow> request list \<Rightarrow> string \<times> request list" where
  "try_alternatives E [] claude_response calls = (claude_response, calls)"
| "try_alternatives E (approach # rest) claude_response calls =
     (case converse E (length calls) approach of
        Inl alt_e \<Rightarrow> try_alternatives E rest claude_response (calls @ [approach])
      | Inr alt_claude_response \<Rightarrow>
          if \<not> signals_empty alt_claude_response
          then (alt_claude_response, calls @ [approach])
          else try_alternatives E rest claude_response (calls @ [approach]))"

definition select_response :: "env \<Rightarrow> bytes \<Rightarrow> string \<Rightarrow> request list \<Rightarrow> string \<times> request list" where
  "select_response E pdf_bytes claude_response calls =
     (if signals_empty claude_response
      then try_alternatives E (alternative_approaches pdf_bytes) claude_response calls
      else (claude_response, calls))"

text \<open>
  \<^verbatim>\<open>if 'debugInfo' in patient_data: print(patient_data['debugInfo'])\<close> prints only, but
  on a parsed value that is no dictionary the test or the subscript can raise
  \<^verbatim>\<open>TypeError\<close> (the texts are CPython's).
\<close>

definition debug_info_lookup :: "pyval \<Rightarrow> exn option" where
  "debug_info_lookup patient_data =
     (case patient_data of
        PDict d \<Rightarrow> None
      | PList xs \<Rightarrow>
          if PStr ''debugInfo'' \<in> set xs
          then Some (Exn TypeError ''list indices must be integers or slices, not str'')
          else None
      | PStr s \<Rightarrow>
          if str_contains ''debugInfo'' s
          then Some (Exn TypeError ''string indices must be integers'')
          else None
      | _ \<Rightarrow> Some (Exn TypeError
                 (''argument of type '' @ [CHR 0x27] @ type_name patient_data @ [CHR 0x27]
                  @ '' is not iterable'')))"

text \<open>The body of the inner \<^verbatim>\<open>try\<close>: locate the braces, parse, return.\<close>

definition parse_body :: "env \<Rightarrow> string \<Rightarrow> exn + pyval" where
  "parse_body E claude_response =
     (let json_start = str_find CHR ''{'' claude_response;
          json_end = str_rfind CHR ''}'' claude_response + 1
      in if json_start = -1 \<or> json_end = 0
         then Inr (error_record (''No JSON response from Claude. Response: ''
                                  @ take 200 claude_response))
         else (case json_loads E (PStr (slice claude_response json_start json_end)) of
                 Inl e \<Rightarrow> Inl e
               | Inr patient_data \<Rightarrow>
                   (case debug_info_lookup patient_data of
                      Some e \<Rightarrow> Inl e
                    | None \<Rightarrow> Inr patient_data)))"

text \<open>The inner \<^verbatim>\<open>try\<close> with its handler; any other exception goes on to the outer one.\<close>

definition parse_response :: "env \<Rightarrow> string \<Rightarrow> exn + pyval" where
  "parse_response E claude_response =
     (case parse_body E claude_response of
        Inr v \<Rightarrow> Inr v
      | Inl e \<Rightarrow>
          if is_value_error e
          then Inr (error_record (''JSON parsing error: '' @ msg e @ ''. Response: ''
                                   @ take 200 claude_response))
          else Inl e)"

text \<open>
  How control leaves a block of statements: by an exception, by a \<^verbatim>\<open>return\<close>, or by
  reaching its end with a value for the statements that follow.
\<close>

datatype 'a stage = Raise exn | Return pyval | Continue 'a

text \<open>
  The first part of the outer \<^verbatim>\<open>try\<close>: decode, check the header, choose the prompt,
  call the service and, on a response that signals emptiness, try the alternatives. It
  yields the response that goes on to parsing, with the requests sent, in order.
\<close>

definition obtain_response :: "env \<Rightarrow> string \<Rightarrow> string stage \<times> request list" where
  "obtain_response E pdf_content =
     (case b64decode E (PStr pdf_content) of
        Inl e \<Rightarrow> (Raise e, [])
      | Inr pdf_bytes \<Rightarrow>
          if \<not> prefix ''%PDF-'' pdf_bytes
          then (Return (error_record ''Invalid PDF file - missing PDF header''), [])
          else
            (let pdf_version = utf8_decode_ignore E (take 8 pdf_bytes);
                 messages = first_request pdf_version pdf_bytes
             in case converse E 0 messages of
                  Inl e \<Rightarrow> (Raise e, [messages])
                | Inr claude_response \<Rightarrow>
                    (case select_response E pdf_bytes claude_response [messages] of
                       (chosen, calls) \<Rightarrow> (Continue chosen, calls))))"

text \<open>The body of the outer \<^verbatim>\<open>try\<close>: the first part, then the parsing.\<close>

definition extract_body :: "env \<Rightarrow> string \<Rightarrow> (exn + pyval) \<times> request list" where
  "extract_body E pdf_content =
     (case obtain_response E pdf_content of
        (Raise e, calls) \<Rightarrow> (Inl e, calls)
      | (Return v, calls) \<Rightarrow> (Inr v, calls)
      | (Continue claude_response, calls) \<Rightarrow> (parse_response E claude_response, calls))"

text \<open>The extractor: the outer \<^verbatim>\<open>except Exception\<close> around the body.\<close>

definition extract_patient_data_with_claude_pdf_support :: "env \<Rightarrow> string \<Rightarrow> pyval \<times> request list" where
  "extract_patient_data_with_claude_pdf_support E pdf_content =
     (case extract_body E pdf_content of
        (Inr v, calls) \<Rightarrow> (v, calls)
      | (Inl e, calls) \<Rightarrow>
          (error_record (''Bedrock Claude PDF support error: '' @ msg e), calls))"

section \<open>The request handler\<close>

text \<open>The headers of the preflight response, and the headers of every other response.\<close>

definition preflight_headers :: pyval where
  "preflight_headers =
     PDict [(''Access-Control-Allow-Origin'', PStr ''*''),
            (''Access-Control-Allow-Methods'', PStr ''POST, OPTIONS''),
            (''Access-Control-Allow-Headers'', PStr ''Content-Type, Authorization'')]"

definition cors_headers :: pyval where
  "cors_headers =
     PDict [(''Content-Type'', PStr ''application/json''),
            (''Access-Control-Allow-Origin'', PStr ''*''),
            (''Access-Control-Allow-Methods'', PStr ''POST, OPTIONS, GET''),
            (''Access-Control-Allow-Headers'',
               PStr ''Content-Type, X-Amz-Date, Authorization, X-Api-Key, X-Amz-Security-Token'')]"

definition http_response :: "int \<Rightarrow> pyval \<Rightarrow> string \<Rightarrow> pyval" where
  "http_response status hdrs body =
     PDict [(''statusCode'', PInt status), (''headers'', hdrs), (''body'', PStr body)]"

definition failure_result :: "string \<Rightarrow> pyval" where
  "failure_result err = PDict [(''success'', PBool False), (''error'', PStr err)]"

definition error_response :: "env \<Rightarrow> int \<Rightarrow> string \<Rightarrow> pyval" where
  "error_response E status err =
     http_response status cors_headers (json_dumps E (failure_result err))"

text \<open>
  The guarded decoding of the body: \<^verbatim>\<open>base64.b64decode(body).decode('utf-8')\<close> when the
  event's \<^verbatim>\<open>isBase64Encoded\<close> is truthy, the body as it is otherwise.
\<close>

definition decode_body :: "env \<Rightarrow> pydict \<Rightarrow> pyval \<Rightarrow> exn + pyval" where
  "decode_body E event body =
     (if truthy (dict_get event ''isBase64Encoded'' (PBool False))
      then (case b64decode E body of
              Inl e \<Rightarrow> Inl e
            | Inr raw \<Rightarrow>
                (case utf8_decode E raw of
                   Inl e \<Rightarrow> Inl e
                 | Inr decoded \<Rightarrow> Inr (PStr decoded)))
      else Inr body)"

text \<open>
  \<open>context\<close> is the request id of the Lambda context object, \<open>None\<close> for a context
  that is falsy.
\<close>

definition processing_result :: "string \<Rightarrow> string option \<Rightarrow> pyval \<Rightarrow> pyval \<Rightarrow> pyval" where
  "processing_result pdf_content context debug_info patient_data =
     PDict [(''success'', PBool True),
            (''message'', PStr ''PDF received and processed successfully''),
            (''contentLength'', PInt (int (length pdf_content))),
            (''timestamp'',
               PStr (case context of Some aws_request_id \<Rightarrow> aws_request_id
                                   | None \<Rightarrow> ''unknown'')),
            (''debugInfo'', debug_info),
            (''patientData'', patient_data)]"

text \<open>
  After the extraction: the \<^verbatim>\<open>patient_data.get\<close> calls (which only print, but raise on a
  value without the method), the result mapping, and its shaping by the presence of
  \<^verbatim>\<open>httpMethod\<close> in the event.
\<close>

definition respond :: "env \<Rightarrow> pydict \<Rightarrow> string option \<Rightarrow> string \<Rightarrow> pyval \<Rightarrow> exn + pyval" where
  "respond E event context pdf_content patient_data =
     (case py_get patient_data ''firstName'' PNone of
        Inl e \<Rightarrow> Inl e
      | Inr first_name \<Rightarrow>
          (case py_get patient_data ''debugInfo'' (PStr ''No debug info available'') of
             Inl e \<Rightarrow> Inl e
           | Inr debug_info \<Rightarrow>
               (let result = processing_result pdf_content context debug_info patient_data
                in if map_of event ''httpMethod'' = None
                   then Inr result
                   else Inr (http_response 200 cors_headers (json_dumps E result)))))"

text \<open>The body of the handler's \<^verbatim>\<open>try\<close>, with the requests sent to the service.\<close>

definition handler_body :: "env \<Rightarrow> pydict \<Rightarrow> string option \<Rightarrow> (exn + pyval) \<times> request list" where
  \<open>handler_body E event context =
     (let http_method = dict_get event ''httpMethod'' (PStr []) in
      if http_method = PStr ''OPTIONS''
      then (Inr (http_response 200 preflight_headers []), [])
      else if http_method \<noteq> PStr ''POST''
      then (Inr (error_response E 405
                   ''Method not allowed. Only POST requests are supported.''), [])
      else
        (let body = dict_get event ''body'' (PStr []) in
         if \<not> truthy body
         then (Inr (error_response E 400 ''No PDF content provided in request body.''), [])
         else
           (case decode_body E event body of
              Inl e \<Rightarrow>
                (Inr (error_response E 400 (''Failed to decode request body: '' @ msg e)), [])
            | Inr decoded \<Rightarrow>
                (case json_loads E decoded of
                   Inl e \<Rightarrow>
                     if cls e = JSONDecodeError
                     then (Inr (error_response E 400
                                  (''Invalid JSON in request body: '' @ msg e)), [])
                     else (Inl e, [])
                 | Inr request_data \<Rightarrow>
                     (case py_get request_data ''pdfContent'' (PStr []) of
                        Inl e \<Rightarrow> (Inl e, [])
                      | Inr pdf_content \<Rightarrow>
                          if \<not> truthy pdf_content
                          then (Inr (error_response E 400
                                  ''No PDF content found in request. Expected "pdfContent" field.''),
                                [])
                          else
                            (case pdf_content of
                               PStr s \<Rightarrow>
                                 (case extract_patient_data_with_claude_pdf_support E s of
                                    (patient_data, calls) \<Rightarrow>
                                      (respond E event context s patient_data, calls))
                             | _ \<Rightarrow>
                                 (Inr (error_response E 400 ''PDF content must be a string.''),
                                  [])))))))\<close>

text \<open>The handler: the top-level \<^verbatim>\<open>except Exception\<close> around the body.\<close>

definition handler :: "env \<Rightarrow> pydict \<Rightarrow> string option \<Rightarrow> pyval \<times> request list" where
  "handler E event context =
     (case handler_body E event context of
        (Inr response, calls) \<Rightarrow> (response, calls)
      | (Inl e, calls) \<Rightarrow>
          (let error_result = failure_result (''Internal server error: '' @ msg e)
           in if map_of event ''httpMethod'' = None
              then (error_result, calls)
              else (http_response 500 cors_headers (json_dumps E error_result), calls)))"

section \<open>A test double for the library and the service\<close>

text \<open>
  A fake capability with the same call-and-respond contract: the decoders are tables
  that agree with Python on the entries they hold, and the service answers from a script,
  the \<open>n\<close>-th call getting the \<open>n\<close>-th outcome. The base64 table holds two strings
  with characters outside the base64 alphabet: \<^verbatim>\<open>base64.b64decode\<close> discards such
  characters and decodes what is left, so \<^verbatim>\<open>'!!!!'\<close> decodes to no bytes at all. A string
  that is not in a table raises, as Python does on \<^verbatim>\<open>'abc'\<close> (incorrect padding) and as
  \<^verbatim>\<open>json.loads\<close> does on the empty text.
\<close>

definition mock_b64decode :: "pyval \<Rightarrow> exn + bytes" where
  "mock_b64decode x =
     (case x of
        PStr s \<Rightarrow>
          (case map_of [(''JVBERi0xLjQ='', ''%PDF-1.4''), (''JVBERi0xLjM='', ''%PDF-1.3''),
                        (''JVBERi0xLjc='', ''%PDF-1.7''), (''aGVsbG8='', ''hello''),
                        (''!!!!'', []), (''JVBE!Ri0xLjQ='', ''%PDF-1.4'')] s of
             Some bs \<Rightarrow> Inr bs
           | None \<Rightarrow> Inl (Exn ValueError ''Incorrect padding''))
      | _ \<Rightarrow> Inl (Exn TypeError ''argument should be a bytes-like object or ASCII string''))"

definition is_ascii :: "char \<Rightarrow> bool" where
  "is_ascii c = ((of_char c :: nat) < 128)"

definition mock_utf8_decode :: "bytes \<Rightarrow> exn + string" where
  "mock_utf8_decode bs =
     (if list_all is_ascii bs then Inr bs
      else Inl (Exn ValueError ''codec cannot decode bytes''))"

definition mock_utf8_decode_ignore :: "bytes \<Rightarrow> string" where
  "mock_utf8_decode_ignore bs = filter is_ascii bs"

definition mock_json_table :: "(string \<times> pyval) list" where
  \<open>mock_json_table =
     [(''{"pdfContent": "JVBERi0xLjQ="}'', PDict [(''pdfContent'', PStr ''JVBERi0xLjQ='')]),
      (''{"pdfContent": "aGVsbG8="}'', PDict [(''pdfContent'', PStr ''aGVsbG8='')]),
      (''{"pdfContent": "abc"}'', PDict [(''pdfContent'', PStr ''abc'')]),
      (''{"pdfContent": "!!!!"}'', PDict [(''pdfContent'', PStr ''!!!!'')]),
      (''[1, 2]'', PList [PInt 1, PInt 2]),
      (''{"firstName": "Jane", "lastName": "Doe", "dateOfBirth": "1990-01-15"}'',
         PDict [(''firstName'', PStr ''Jane''), (''lastName'', PStr ''Doe''),
                (''dateOfBirth'', PStr ''1990-01-15'')]),
      (''{"firstName": "Jane", "extra": "x"}'',
         PDict [(''firstName'', PStr ''Jane''), (''extra'', PStr ''x'')]),
      (''{"firstName": "Ann", "note": "some fields are blank"}'',
         PDict [(''firstName'', PStr ''Ann''), (''note'', PStr ''some fields are blank'')])]\<close>

definition mock_json_loads :: "pyval \<Rightarrow> exn + pyval" where
  "mock_json_loads x =
     (case x of
        PStr s \<Rightarrow>
          (case map_of mock_json_table s of
             Some v \<Rightarrow> Inr v
           | None \<Rightarrow> Inl (Exn JSONDecodeError ''Expecting value: line 1 column 1 (char 0)''))
      | _ \<Rightarrow> Inl (Exn TypeError ''the JSON object must be str, bytes or bytearray''))"

text \<open>
  The double's serializer writes a value as \<^verbatim>\<open>json.dumps\<close> does for values built from
  \<^verbatim>\<open>None\<close>, booleans, integers, lists, dictionaries and strings of printable ASCII
  characters (of which only the double quote and the backslash need an escape). A float is
  written as its numerator, a slash and its denominator, which is not Python's notation;
  no float occurs where the double is used.
\<close>

function show_nat :: "nat \<Rightarrow> string" where
  "show_nat n =
     (if n < 10 then [char_of (48 + n)] else show_nat (n div 10) @ [char_of (48 + n mod 10)])"
  by pat_completeness auto
termination
  by (relation "measure id") auto

definition show_int :: "int \<Rightarrow> string" where
  "show_int i = (if i < 0 then CHR ''-'' # show_nat (nat (- i)) else show_nat (nat i))"

fun join :: "string \<Rightarrow> string list \<Rightarrow> string" where
  "join sep [] = []"
| "join sep [x] = x"
| "join sep (x # y # ys) = x @ sep @ join sep (y # ys)"

definition quote :: "string \<Rightarrow> string" where
  "quote s =
     [CHR 0x22]
     @ concat (map (\<lambda>c. if c = CHR 0x22 \<or> c = CHR 0x5C then [CHR 0x5C, c] else [c]) s)
     @ [CHR 0x22]"

primrec mock_json_dumps :: "pyval \<Rightarrow> string" where
  "mock_json_dumps PNone = ''null''"
| "mock_json_dumps (PBool b) = (if b then ''true'' else ''false'')"
| "mock_json_dumps (PInt i) = show_int i"
| "mock_json_dumps (PFloat r) =
     show_int (fst (quotient_of r)) @ ''/'' @ show_int (snd (quotient_of r))"
| "mock_json_dumps (PStr s) = quote s"
| "mock_json_dumps (PList xs) = ''['' @ join '', '' (map mock_json_dumps xs) @ '']''"
| "mock_json_dumps (PDict kvs) =
     ''{'' @ join '', '' (map (\<lambda>kv. quote (fst kv) @ '': '' @ snd kv)
                            (map (map_prod id mock_json_dumps) kvs)) @ ''}''"

definition scripted :: "(exn + string) list \<Rightarrow> nat \<Rightarrow> request \<Rightarrow> exn + string" where
  "scripted script n req =
     (if n < length script then script ! n
      else Inl (Exn OtherException ''no scripted response left''))"

definition mock_env :: "(exn + string) list \<Rightarrow> env" where
  "mock_env script =
     \<lparr> b64decode = mock_b64decode,
       utf8_decode = mock_utf8_decode,
       utf8_decode_ignore = mock_utf8_decode_ignore,
       json_loads = mock_json_loads,
       json_dumps = mock_json_dumps,
       converse = scripted script \<rparr>"

section \<open>Notions used to state the properties\<close>

text \<open>
  A retry is usable when the call returns a text that does not signal emptiness: the
  condition under which the loop takes the alternative's response and stops.
\<close>

definition usable :: "exn + string \<Rightarrow> bool" where
  "usable outcome = (case outcome of Inl e \<Rightarrow> False | Inr r \<Rightarrow> \<not> signals_empty r)"


text \<open>The \<open>headers\<close> entry of a response.\<close>

definition response_headers :: "pyval \<Rightarrow> pyval option" where
  "response_headers response = (case response of PDict d \<Rightarrow> map_of d ''headers'' | _ \<Rightarrow> None)"

section \<open>Lemmas on the string searches and the test double\<close>

lemma str_find_range: "str_find c s = -1 \<or> (0 \<le> str_find c s \<and> str_find c s < int (length s))"
  by (induction s) (auto simp: Let_def)

lemma str_find_none: "(str_find c s = -1) = (c \<notin> set s)"
proof (induction s)
  case Nil
  show ?case by simp
next
  case (Cons x xs)
  have "str_find c xs = -1 \<or> 0 \<le> str_find c xs"
    using str_find_range [of c xs] by blast
  with Cons show ?case by (auto simp: Let_def)
qed

lemma str_rfind_none: "(str_rfind c s + 1 = 0) = (c \<notin> set s)"
proof -
  have r: "str_find c (rev s) = -1 \<or> (0 \<le> str_find c (rev s) \<and> str_find c (rev s) < int (length s))"
    using str_find_range [of c "rev s"] by simp
  have n: "(str_find c (rev s) = -1) = (c \<notin> set s)"
    using str_find_none [of c "rev s"] by simp
  show ?thesis
    using r n by (auto simp: str_rfind_def Let_def)
qed

lemma parse_body_no_braces:
  "CHR ''{'' \<notin> set r \<or> CHR ''}'' \<notin> set r \<Longrightarrow>
   parse_body E r = Inr (error_record (''No JSON response from Claude. Response: '' @ take 200 r))"
  by (auto simp: parse_body_def Let_def str_find_none str_rfind_none)

lemma parse_body_braces:
  "CHR ''{'' \<in> set r \<Longrightarrow> CHR ''}'' \<in> set r \<Longrightarrow>
   parse_body E r =
     (case json_loads E (PStr (slice r (str_find CHR ''{'' r) (str_rfind CHR ''}'' r + 1))) of
        Inl e \<Rightarrow> Inl e
      | Inr patient_data \<Rightarrow>
          (case debug_info_lookup patient_data of Some e \<Rightarrow> Inl e | None \<Rightarrow> Inr patient_data))"
  by (simp add: parse_body_def Let_def str_find_none str_rfind_none)

lemma mock_selectors:
  "b64decode (mock_env sc) = mock_b64decode"
  "utf8_decode (mock_env sc) = mock_utf8_decode"
  "utf8_decode_ignore (mock_env sc) = mock_utf8_decode_ignore"
  "json_loads (mock_env sc) = mock_json_loads"
  "json_dumps (mock_env sc) = mock_json_dumps"
  "converse (mock_env sc) = scripted sc"
  by (simp_all add: mock_env_def)

lemmas mock_eval = mock_selectors mock_b64decode_def mock_utf8_decode_def
  mock_utf8_decode_ignore_def mock_json_loads_def mock_json_table_def is_ascii_def scripted_def
  first_request_def select_response_def alternative_approaches_def signals_empty_def
  lower_def lower_char_def converse_request_def

section \<open>Lemmas on the extractor\<close>

lemma extract_of_obtain:
  "extract_patient_data_with_claude_pdf_support E pdf_content =
     (case obtain_response E pdf_content of
        (Raise e, calls) \<Rightarrow> (error_record (''Bedrock Claude PDF support error: '' @ msg e), calls)
      | (Return v, calls) \<Rightarrow> (v, calls)
      | (Continue r, calls) \<Rightarrow>
          (case parse_response E r of
             Inr v \<Rightarrow> (v, calls)
           | Inl e \<Rightarrow> (error_record (''Bedrock Claude PDF support error: '' @ msg e), calls)))"
  by (simp add: extract_patient_data_with_claude_pdf_support_def extract_body_def
      split: prod.splits stage.splits sum.splits)

lemma extract_calls:
  "snd (extract_patient_data_with_claude_pdf_support E pdf_content) =
     snd (obtain_response E pdf_content)"
  by (simp add: extract_of_obtain split: prod.splits stage.splits sum.splits)

lemma try_alternatives_two:
  "try_alternatives E [a1, a2] r0 [m] =
     (if usable (converse E 1 a1) then (projr (converse E 1 a1), [m, a1])
      else if usable (converse E 2 a2) then (projr (converse E 2 a2), [m, a1, a2])
      else (r0, [m, a1, a2]))"
  by (auto simp: usable_def numeral_2_eq_2 split: sum.splits)

lemma try_alternatives_calls:
  "\<exists>more. snd (try_alternatives E as r calls) = calls @ more"
proof (induction as arbitrary: calls)
  case Nil
  show ?case by simp
next
  case (Cons a as)
  obtain more where "snd (try_alternatives E as r (calls @ [a])) = (calls @ [a]) @ more"
    using Cons [of "calls @ [a]"] by blast
  then have "snd (try_alternatives E as r (calls @ [a])) = calls @ (a # more)"
    by simp
  then show ?case
    by (cases "converse E (length calls) a") auto
qed

lemma select_response_calls:
  "\<exists>more. snd (select_response E pdf_bytes r calls) = calls @ more"
  using try_alternatives_calls [of E "alternative_approaches pdf_bytes" r calls]
  by (simp add: select_response_def)

lemma obtain_response_first_call:
  assumes "b64decode E (PStr pdf_content) = Inr pdf_bytes"
    and "prefix ''%PDF-'' pdf_bytes"
  shows "take 1 (snd (obtain_response E pdf_content)) =
           [first_request (utf8_decode_ignore E (take 8 pdf_bytes)) pdf_bytes]"
proof (cases "converse E 0 (first_request (utf8_decode_ignore E (take 8 pdf_bytes)) pdf_bytes)")
  case (Inl e)
  with assms show ?thesis
    by (simp add: obtain_response_def)
next
  case (Inr r)
  obtain more where
    "snd (select_response E pdf_bytes r
            [first_request (utf8_decode_ignore E (take 8 pdf_bytes)) pdf_bytes]) =
       [first_request (utf8_decode_ignore E (take 8 pdf_bytes)) pdf_bytes] @ more"
    using select_response_calls by blast
  with assms Inr show ?thesis
    by (auto simp: obtain_response_def split: prod.splits)
qed

lemma obtain_response_Return:
  "obtain_response E pdf_content = (Return v, calls) \<Longrightarrow>
   v = error_record ''Invalid PDF file - missing PDF header''"
  by (auto simp: obtain_response_def Let_def split: sum.splits if_splits prod.splits)

lemma parse_response_Inr_parsed:
  "parse_response E r = Inr v \<Longrightarrow>
   (\<exists>info. v = error_record info) \<or>
   (CHR ''{'' \<in> set r \<and> CHR ''}'' \<in> set r \<and>
    json_loads E (PStr (slice r (str_find CHR ''{'' r) (str_rfind CHR ''}'' r + 1))) = Inr v)"
  by (auto simp: parse_response_def parse_body_def Let_def str_find_none str_rfind_none
      split: sum.splits if_splits option.splits)

lemma extract_result_parsed:
  "(\<exists>info. fst (extract_patient_data_with_claude_pdf_support E pdf_content) = error_record info)
   \<or> (\<exists>chosen calls.
          obtain_response E pdf_content = (Continue chosen, calls) \<and>
          CHR ''{'' \<in> set chosen \<and> CHR ''}'' \<in> set chosen \<and>
          json_loads E (PStr (slice chosen (str_find CHR ''{'' chosen)
                                           (str_rfind CHR ''}'' chosen + 1))) =
            Inr (fst (extract_patient_data_with_claude_pdf_support E pdf_content)))"
proof (cases "obtain_response E pdf_content")
  case (Pair st calls)
  show ?thesis
  proof (cases st)
    case (Raise e)
    with Pair show ?thesis by (auto simp: extract_of_obtain)
  next
    case (Return v)
    with Pair obtain_response_Return [of E pdf_content v calls] show ?thesis
      by (auto simp: extract_of_obtain)
  next
    case (Continue r)
    show ?thesis
    proof (cases "parse_response E r")
      case (Inl e)
      with Pair Continue show ?thesis by (auto simp: extract_of_obtain)
    next
      case (Inr v)
      with Pair Continue parse_response_Inr_parsed [OF Inr] show ?thesis
        by (auto simp: extract_of_obtain)
    qed
  qed
qed

lemma parse_response_value_error:
  assumes "CHR ''{'' \<in> set r" and "CHR ''}'' \<in> set r"
    and "json_loads E (PStr (slice r (str_find CHR ''{'' r) (str_rfind CHR ''}'' r + 1))) = Inl e"
    and "is_value_error e"
  shows "parse_response E r =
           Inr (error_record (''JSON parsing error: '' @ msg e @ ''. Response: '' @ take 200 r))"
  using assms by (simp add: parse_response_def parse_body_braces)

lemma slice_wrong_order:
  "str_rfind c2 s < str_find c1 s \<Longrightarrow> slice s (str_find c1 s) (str_rfind c2 s + 1) = []"
  by (simp add: slice_def)

lemma obtain_response_retries:
  assumes "b64decode E (PStr pdf_content) = Inr pdf_bytes"
    and "prefix ''%PDF-'' pdf_bytes"
    and "converse E 0 (first_request (utf8_decode_ignore E (take 8 pdf_bytes)) pdf_bytes) = Inr r0"
    and "signals_empty r0"
  shows "obtain_response E pdf_content =
     (if usable (converse E 1 (converse_request ALT_SIMPLIFIED_PROMPT ''patientFile'' pdf_bytes))
      then (Continue (projr (converse E 1
                       (converse_request ALT_SIMPLIFIED_PROMPT ''patientFile'' pdf_bytes))),
            [first_request (utf8_decode_ignore E (take 8 pdf_bytes)) pdf_bytes,
             converse_request ALT_SIMPLIFIED_PROMPT ''patientFile'' pdf_bytes])
      else if usable (converse E 2 (converse_request ALT_DIFFERENT_MODEL ''medicalRecord'' pdf_bytes))
      then (Continue (projr (converse E 2
                       (converse_request ALT_DIFFERENT_MODEL ''medicalRecord'' pdf_bytes))),
            [first_request (utf8_decode_ignore E (take 8 pdf_bytes)) pdf_bytes,
             converse_request ALT_SIMPLIFIED_PROMPT ''patientFile'' pdf_bytes,
             converse_request ALT_DIFFERENT_MODEL ''medicalRecord'' pdf_bytes])
      else (Continue r0,
            [first_request (utf8_decode_ignore E (take 8 pdf_bytes)) pdf_bytes,
             converse_request ALT_SIMPLIFIED_PROMPT ''patientFile'' pdf_bytes,
             converse_request ALT_DIFFERENT_MODEL ''medicalRecord'' pdf_bytes]))"
  using assms
  by (simp add: obtain_response_def select_response_def alternative_approaches_def
      try_alternatives_two del: try_alternatives.simps)

lemma usable_Inl: "\<not> usable (Inl e)"
  by (simp add: usable_def)

section \<open>The header check\<close>

text \<open>
  C6. When the decoded bytes do not start with the five bytes \<^verbatim>\<open>%PDF-\<close>, the extractor
  returns the record with \<open>debugInfo\<close> "Invalid PDF file - missing PDF header" and the
  three other fields empty, and no request has been sent to the inference service.
\<close>

theorem invalid_header_rejected:
  assumes "b64decode E (PStr pdf_content) = Inr pdf_bytes"
    and "\<not> prefix ''%PDF-'' pdf_bytes"
  shows "extract_patient_data_with_claude_pdf_support E pdf_content =
           (PDict [(''debugInfo'', PStr ''Invalid PDF file - missing PDF header''),
                   (''firstName'', PStr []), (''lastName'', PStr []),
                   (''dateOfBirth'', PStr [])], [])"
  using assms
  by (simp add: extract_patient_data_with_claude_pdf_support_def extract_body_def
      obtain_response_def error_record_def)

theorem invalid_header_rejected_witness:
  "b64decode (mock_env []) (PStr ''aGVsbG8='') = Inr ''hello''
   \<and> \<not> prefix ''%PDF-'' ''hello''
   \<and> extract_patient_data_with_claude_pdf_support (mock_env []) ''aGVsbG8='' =
       (PDict [(''debugInfo'', PStr ''Invalid PDF file - missing PDF header''),
               (''firstName'', PStr []), (''lastName'', PStr []),
               (''dateOfBirth'', PStr [])], [])"
proof -
  have d: "b64decode (mock_env []) (PStr ''aGVsbG8='') = Inr ''hello''"
    by (simp add: mock_eval)
  have p: "\<not> prefix ''%PDF-'' ''hello''"
    by simp
  from invalid_header_rejected [OF d p] d p show ?thesis
    by simp
qed

section \<open>The response without a JSON object\<close>

text \<open>
  C8 (as amended). When the response that reaches parsing has no \<^verbatim>\<open>{\<close> or no \<^verbatim>\<open>}\<close>,
  the extractor returns the record whose \<open>debugInfo\<close> is "No JSON response from Claude.
  Response: " followed by the first 200 characters of that response, with the three other
  fields empty. A response that holds both characters is handed to the JSON parser, from
  its first \<^verbatim>\<open>{\<close> to its last \<^verbatim>\<open>}\<close>; when the parser rejects that text with a JSON or
  value error, the \<open>debugInfo\<close> is "JSON parsing error: ", the message, ". Response: " and
  the first 200 characters, the three other fields being empty. The text handed over is
  empty when the last \<^verbatim>\<open>}\<close> comes before the first \<^verbatim>\<open>{\<close>.
\<close>

theorem no_json_response:
  assumes "obtain_response E pdf_content = (Continue chosen, calls)"
  shows "(CHR ''{'' \<notin> set chosen \<or> CHR ''}'' \<notin> set chosen \<longrightarrow>
            extract_patient_data_with_claude_pdf_support E pdf_content =
              (PDict [(''debugInfo'',
                         PStr (''No JSON response from Claude. Response: '' @ take 200 chosen)),
                      (''firstName'', PStr []), (''lastName'', PStr []),
                      (''dateOfBirth'', PStr [])], calls))
         \<and> (\<forall>e. CHR ''{'' \<in> set chosen \<and> CHR ''}'' \<in> set chosen \<and>
                 json_loads E (PStr (slice chosen (str_find CHR ''{'' chosen)
                                                  (str_rfind CHR ''}'' chosen + 1))) = Inl e \<and>
                 is_value_error e \<longrightarrow>
                 extract_patient_data_with_claude_pdf_support E pdf_content =
                   (PDict [(''debugInfo'',
                              PStr (''JSON parsing error: '' @ msg e @ ''. Response: ''
                                    @ take 200 chosen)),
                           (''firstName'', PStr []), (''lastName'', PStr []),
                           (''dateOfBirth'', PStr [])], calls))
         \<and> (str_rfind CHR ''}'' chosen < str_find CHR ''{'' chosen \<longrightarrow>
                slice chosen (str_find CHR ''{'' chosen) (str_rfind CHR ''}'' chosen + 1) = [])"
proof (intro conjI impI allI)
  assume "CHR ''{'' \<notin> set chosen \<or> CHR ''}'' \<notin> set chosen"
  then have "parse_body E chosen =
      Inr (error_record (''No JSON response from Claude. Response: '' @ take 200 chosen))"
    by (rule parse_body_no_braces)
  with assms show "extract_patient_data_with_claude_pdf_support E pdf_content =
              (PDict [(''debugInfo'',
                         PStr (''No JSON response from Claude. Response: '' @ take 200 chosen)),
                      (''firstName'', PStr []), (''lastName'', PStr []),
                      (''dateOfBirth'', PStr [])], calls)"
    by (simp add: extract_of_obtain parse_response_def error_record_def)
next
  fix e
  assume h: "CHR ''{'' \<in> set chosen \<and> CHR ''}'' \<in> set chosen \<and>
                 json_loads E (PStr (slice chosen (str_find CHR ''{'' chosen)
                                                  (str_rfind CHR ''}'' chosen + 1))) = Inl e \<and>
                 is_value_error e"
  then have "parse_response E chosen =
           Inr (error_record (''JSON parsing error: '' @ msg e @ ''. Response: '' @ take 200 chosen))"
    using parse_response_value_error [of chosen E e] by blast
  with assms show "extract_patient_data_with_claude_pdf_support E pdf_content =
                   (PDict [(''debugInfo'',
                              PStr (''JSON parsing error: '' @ msg e @ ''. Response: ''
                                    @ take 200 chosen)),
                           (''firstName'', PStr []), (''lastName'', PStr []),
                           (''dateOfBirth'', PStr [])], calls)"
    by (simp add: extract_of_obtain error_record_def)
next
  assume "str_rfind CHR ''}'' chosen < str_find CHR ''{'' chosen"
  then show "slice chosen (str_find CHR ''{'' chosen) (str_rfind CHR ''}'' chosen + 1) = []"
    by (rule slice_wrong_order)
qed

theorem no_json_response_witness:
  "extract_patient_data_with_claude_pdf_support
     (mock_env [Inr ''The document has no patient data'']) ''JVBERi0xLjQ='' =
   (PDict [(''debugInfo'',
              PStr ''No JSON response from Claude. Response: The document has no patient data''),
           (''firstName'', PStr []), (''lastName'', PStr []), (''dateOfBirth'', PStr [])],
    [converse_request STANDARD ''patientDocument'' ''%PDF-1.4''])
   \<and> extract_patient_data_with_claude_pdf_support
       (mock_env [Inr ''Patient {Jane Doe}'']) ''JVBERi0xLjQ='' =
     (PDict [(''debugInfo'',
                PStr ''JSON parsing error: Expecting value: line 1 column 1 (char 0). Response: Patient {Jane Doe}''),
             (''firstName'', PStr []), (''lastName'', PStr []), (''dateOfBirth'', PStr [])],
      [converse_request STANDARD ''patientDocument'' ''%PDF-1.4''])"
proof -
  let ?E1 = "mock_env [Inr ''The document has no patient data'']"
  let ?E2 = "mock_env [Inr ''Patient {Jane Doe}'']"
  have o1: "obtain_response ?E1 ''JVBERi0xLjQ='' =
       (Continue ''The document has no patient data'',
        [converse_request STANDARD ''patientDocument'' ''%PDF-1.4''])"
    by code_simp
  have b1: "CHR ''{'' \<notin> set ''The document has no patient data''
           \<or> CHR ''}'' \<notin> set ''The document has no patient data''"
    by simp
  have o2: "obtain_response ?E2 ''JVBERi0xLjQ='' =
       (Continue ''Patient {Jane Doe}'',
        [converse_request STANDARD ''patientDocument'' ''%PDF-1.4''])"
    by code_simp
  have b2: "CHR ''{'' \<in> set ''Patient {Jane Doe}'' \<and> CHR ''}'' \<in> set ''Patient {Jane Doe}'' \<and>
      json_loads ?E2 (PStr (slice ''Patient {Jane Doe}'' (str_find CHR ''{'' ''Patient {Jane Doe}'')
                                  (str_rfind CHR ''}'' ''Patient {Jane Doe}'' + 1))) =
        Inl (Exn JSONDecodeError ''Expecting value: line 1 column 1 (char 0)'') \<and>
      is_value_error (Exn JSONDecodeError ''Expecting value: line 1 column 1 (char 0)'')"
    by code_simp
  from no_json_response [OF o1] b1
  have r1: "extract_patient_data_with_claude_pdf_support ?E1 ''JVBERi0xLjQ='' =
      (PDict [(''debugInfo'',
                 PStr (''No JSON response from Claude. Response: ''
                       @ take 200 ''The document has no patient data'')),
              (''firstName'', PStr []), (''lastName'', PStr []), (''dateOfBirth'', PStr [])],
       [converse_request STANDARD ''patientDocument'' ''%PDF-1.4''])"
    by blast
  from no_json_response [OF o2] b2
  have r2: "extract_patient_data_with_claude_pdf_support ?E2 ''JVBERi0xLjQ='' =
      (PDict [(''debugInfo'',
                 PStr (''JSON parsing error: ''
                       @ msg (Exn JSONDecodeError ''Expecting value: line 1 column 1 (char 0)'')
                       @ ''. Response: '' @ take 200 ''Patient {Jane Doe}'')),
              (''firstName'', PStr []), (''lastName'', PStr []), (''dateOfBirth'', PStr [])],
       [converse_request STANDARD ''patientDocument'' ''%PDF-1.4''])"
    by blast
  from r1 r2 show ?thesis
    by simp
qed

text \<open>
  Against C8 as stated: the response \<^verbatim>\<open>}{\<close> has both characters and no pair; the parser
  is given the empty text and rejects it, and the \<open>debugInfo\<close> starts with "JSON parsing
  error", not with "No JSON response from Claude".
\<close>

theorem no_brace_pair_counterexample:
  "CHR ''{'' \<in> set ''}{'' \<and> CHR ''}'' \<in> set ''}{''
   \<and> str_rfind CHR ''}'' ''}{'' < str_find CHR ''{'' ''}{''
   \<and> extract_patient_data_with_claude_pdf_support (mock_env [Inr ''}{'']) ''JVBERi0xLjQ='' =
       (PDict [(''debugInfo'',
                  PStr ''JSON parsing error: Expecting value: line 1 column 1 (char 0). Response: }{''),
               (''firstName'', PStr []), (''lastName'', PStr []), (''dateOfBirth'', PStr [])],
        [converse_request STANDARD ''patientDocument'' ''%PDF-1.4''])
   \<and> \<not> prefix ''No JSON response from Claude''
         ''JSON parsing error: Expecting value: line 1 column 1 (char 0). Response: }{''"
  by code_simp

section \<open>The retries\<close>

text \<open>
  C2 (as amended). When the first response signals emptiness, the alternatives are tried in
  order, each after the outcome of the call before it. The first usable retry ends the
  loop and its response goes on to parsing: after two calls when it is the first
  alternative, after three when it is the second. When no retry is usable (each raises or
  signals emptiness again), three calls have been made and the response that goes on to
  parsing is the first one, not the last one received.
\<close>

theorem retry_selection:
  assumes "b64decode E (PStr pdf_content) = Inr pdf_bytes"
    and "prefix ''%PDF-'' pdf_bytes"
    and "m = first_request (utf8_decode_ignore E (take 8 pdf_bytes)) pdf_bytes"
    and "converse E 0 m = Inr r0"
    and "signals_empty r0"
    and "a1 = converse_request ALT_SIMPLIFIED_PROMPT ''patientFile'' pdf_bytes"
    and "a2 = converse_request ALT_DIFFERENT_MODEL ''medicalRecord'' pdf_bytes"
  shows "obtain_response E pdf_content =
           (if usable (converse E 1 a1) then (Continue (projr (converse E 1 a1)), [m, a1])
            else if usable (converse E 2 a2)
            then (Continue (projr (converse E 2 a2)), [m, a1, a2])
            else (Continue r0, [m, a1, a2]))"
  using assms
  by (simp add: obtain_response_def select_response_def alternative_approaches_def
      try_alternatives_two del: try_alternatives.simps)

text \<open>
  The first retry raises and is skipped; the second is usable and its response is kept.
\<close>

theorem retry_selection_witness:
  "obtain_response
     (mock_env [Inr ''The page is empty'', Inl (Exn OtherException ''ThrottlingException''),
                Inr ''Patient: Jane Doe'']) ''JVBERi0xLjQ='' =
     (Continue ''Patient: Jane Doe'',
      [converse_request STANDARD ''patientDocument'' ''%PDF-1.4'',
       converse_request ALT_SIMPLIFIED_PROMPT ''patientFile'' ''%PDF-1.4'',
       converse_request ALT_DIFFERENT_MODEL ''medicalRecord'' ''%PDF-1.4''])"
proof -
  let ?E = "mock_env [Inr ''The page is empty'', Inl (Exn OtherException ''ThrottlingException''),
                      Inr ''Patient: Jane Doe'']"
  let ?m = "converse_request STANDARD ''patientDocument'' ''%PDF-1.4''"
  let ?a1 = "converse_request ALT_SIMPLIFIED_PROMPT ''patientFile'' ''%PDF-1.4''"
  let ?a2 = "converse_request ALT_DIFFERENT_MODEL ''medicalRecord'' ''%PDF-1.4''"
  have d: "b64decode ?E (PStr ''JVBERi0xLjQ='') = Inr ''%PDF-1.4''"
    by (simp add: mock_eval)
  have h: "prefix ''%PDF-'' ''%PDF-1.4''"
    by simp
  have m: "?m = first_request (utf8_decode_ignore ?E (take 8 ''%PDF-1.4'')) ''%PDF-1.4''"
    by (simp add: mock_eval)
  have c: "converse ?E 0 ?m = Inr ''The page is empty''"
    by (simp add: mock_eval)
  have e: "signals_empty ''The page is empty''"
    by code_simp
  have u1: "\<not> usable (converse ?E 1 ?a1)"
    by code_simp
  have u2: "usable (converse ?E 2 ?a2)"
    by code_simp
  have r2: "projr (converse ?E 2 ?a2) = ''Patient: Jane Doe''"
    by (simp add: mock_eval)
  from retry_selection [OF d h m c e refl refl] u1 u2 r2 show ?thesis
    by simp
qed

text \<open>
  Against C2 as stated: all three responses signal emptiness, the last one received is
  "empty page C", and the response that is parsed is the first one, "page is Empty A".
\<close>

theorem retry_selection_counterexample:
  \<open>converse (mock_env [Inr ''page is Empty A'', Inr ''BLANK page B'', Inr ''empty page C'']) 2
       (converse_request ALT_DIFFERENT_MODEL ''medicalRecord'' ''%PDF-1.4'') = Inr ''empty page C''
   \<and> signals_empty ''page is Empty A'' \<and> signals_empty ''BLANK page B''
   \<and> signals_empty ''empty page C''
   \<and> fst (obtain_response
             (mock_env [Inr ''page is Empty A'', Inr ''BLANK page B'', Inr ''empty page C''])
             ''JVBERi0xLjQ='') = Continue ''page is Empty A''
   \<and> fst (obtain_response
             (mock_env [Inr ''page is Empty A'', Inr ''BLANK page B'', Inr ''empty page C''])
             ''JVBERi0xLjQ='') \<noteq> Continue ''empty page C''
   \<and> extract_patient_data_with_claude_pdf_support
         (mock_env [Inr ''page is Empty A'', Inr ''BLANK page B'', Inr ''empty page C''])
         ''JVBERi0xLjQ='' =
       (PDict [(''debugInfo'', PStr ''No JSON response from Claude. Response: page is Empty A''),
               (''firstName'', PStr []), (''lastName'', PStr []), (''dateOfBirth'', PStr [])],
        [converse_request STANDARD ''patientDocument'' ''%PDF-1.4'',
         converse_request ALT_SIMPLIFIED_PROMPT ''patientFile'' ''%PDF-1.4'',
         converse_request ALT_DIFFERENT_MODEL ''medicalRecord'' ''%PDF-1.4''])\<close>
  by code_simp

section \<open>The parsed object\<close>




section \<open>The choice of the first prompt\<close>

text \<open>
  C4. The claim is that a header declaring a version older than 1.5, such as 1.3 or 1.4,
  gets the SIMPLIFIED prompt. The source announces "different approach for older PDF
  versions" and reports version 1.4 as an "older format", but its test is for "1.3" alone:
  for decoded bytes that start with \<^verbatim>\<open>%PDF-\<close>, the first request carries the SIMPLIFIED
  prompt exactly when the text of the first eight bytes contains "1.3", and the STANDARD
  prompt otherwise. A header declaring version 1.4 therefore gets the STANDARD prompt.
\<close>

theorem first_prompt_by_version:
  assumes "b64decode E (PStr pdf_content) = Inr pdf_bytes"
    and "prefix ''%PDF-'' pdf_bytes"
  shows "map promptText
           (take 1 (snd (extract_patient_data_with_claude_pdf_support E pdf_content))) =
         [if str_contains ''1.3'' (utf8_decode_ignore E (take 8 pdf_bytes))
          then SIMPLIFIED else STANDARD]"
  using obtain_response_first_call [OF assms]
  by (simp add: extract_calls first_request_def converse_request_def)

text \<open>The header \<^verbatim>\<open>%PDF-1.4\<close> gets the STANDARD prompt.\<close>

theorem first_prompt_by_version_witness:
  "b64decode (mock_env [Inr ''no patient data'']) (PStr ''JVBERi0xLjQ='') = Inr ''%PDF-1.4''
   \<and> map promptText
        (take 1 (snd (extract_patient_data_with_claude_pdf_support
                        (mock_env [Inr ''no patient data'']) ''JVBERi0xLjQ=''))) = [STANDARD]"
proof -
  let ?E = "mock_env [Inr ''no patient data'']"
  have d: "b64decode ?E (PStr ''JVBERi0xLjQ='') = Inr ''%PDF-1.4''"
    by (simp add: mock_eval)
  have h: "prefix ''%PDF-'' ''%PDF-1.4''"
    by simp
  have v: "\<not> str_contains ''1.3'' (utf8_decode_ignore ?E (take 8 ''%PDF-1.4''))"
    by (simp add: mock_eval)
  from first_prompt_by_version [OF d h] v d show ?thesis
    by simp
qed

section \<open>The extractor returns on every path\<close>

text \<open>
  C7 (as amended). For every input and every behaviour of the library and the service the
  extractor returns a value. The value is either a four-field record with empty name and
  date fields, or the value the JSON parser returned for the text between the first
  \<^verbatim>\<open>{\<close> and the last \<^verbatim>\<open>}\<close> of the response that reached parsing, as the parser
  returned it. When the base64 decoding raises, or when the first inference call raises,
  the record's \<open>debugInfo\<close> is "Bedrock Claude PDF support error: " followed by the
  message. A retry that raises is skipped and gives no error record: when the first retry
  raises, the second is sent, and its response goes on to parsing if it is usable, the
  first response otherwise; when no retry was usable and the second raises, the first
  response goes on to parsing.
\<close>

theorem extractor_never_raises:
  "((\<exists>info. fst (extract_patient_data_with_claude_pdf_support E pdf_content) =
              PDict [(''debugInfo'', PStr info), (''firstName'', PStr []),
                     (''lastName'', PStr []), (''dateOfBirth'', PStr [])])
    \<or> (\<exists>chosen calls.
          obtain_response E pdf_content = (Continue chosen, calls) \<and>
          CHR ''{'' \<in> set chosen \<and> CHR ''}'' \<in> set chosen \<and>
          json_loads E (PStr (slice chosen (str_find CHR ''{'' chosen)
                                           (str_rfind CHR ''}'' chosen + 1))) =
            Inr (fst (extract_patient_data_with_claude_pdf_support E pdf_content))))
   \<and> (\<forall>e. b64decode E (PStr pdf_content) = Inl e \<longrightarrow>
         extract_patient_data_with_claude_pdf_support E pdf_content =
           (PDict [(''debugInfo'', PStr (''Bedrock Claude PDF support error: '' @ msg e)),
                   (''firstName'', PStr []), (''lastName'', PStr []),
                   (''dateOfBirth'', PStr [])], []))
   \<and> (\<forall>pdf_bytes e.
         b64decode E (PStr pdf_content) = Inr pdf_bytes \<and> prefix ''%PDF-'' pdf_bytes \<and>
         converse E 0 (first_request (utf8_decode_ignore E (take 8 pdf_bytes)) pdf_bytes) = Inl e
         \<longrightarrow>
         extract_patient_data_with_claude_pdf_support E pdf_content =
           (PDict [(''debugInfo'', PStr (''Bedrock Claude PDF support error: '' @ msg e)),
                   (''firstName'', PStr []), (''lastName'', PStr []),
                   (''dateOfBirth'', PStr [])],
            [first_request (utf8_decode_ignore E (take 8 pdf_bytes)) pdf_bytes]))
   \<and> (\<forall>pdf_bytes r0 e.
         b64decode E (PStr pdf_content) = Inr pdf_bytes \<and> prefix ''%PDF-'' pdf_bytes \<and>
         converse E 0 (first_request (utf8_decode_ignore E (take 8 pdf_bytes)) pdf_bytes) = Inr r0 \<and>
         signals_empty r0 \<and>
         converse E 1 (converse_request ALT_SIMPLIFIED_PROMPT ''patientFile'' pdf_bytes) = Inl e
         \<longrightarrow>
         obtain_response E pdf_content =
           (if usable (converse E 2 (converse_request ALT_DIFFERENT_MODEL ''medicalRecord'' pdf_bytes))
            then Continue (projr (converse E 2
                            (converse_request ALT_DIFFERENT_MODEL ''medicalRecord'' pdf_bytes)))
            else Continue r0,
            [first_request (utf8_decode_ignore E (take 8 pdf_bytes)) pdf_bytes,
             converse_request ALT_SIMPLIFIED_PROMPT ''patientFile'' pdf_bytes,
             converse_request ALT_DIFFERENT_MODEL ''medicalRecord'' pdf_bytes]))
   \<and> (\<forall>pdf_bytes r0 e.
         b64decode E (PStr pdf_content) = Inr pdf_bytes \<and> prefix ''%PDF-'' pdf_bytes \<and>
         converse E 0 (first_request (utf8_decode_ignore E (take 8 pdf_bytes)) pdf_bytes) = Inr r0 \<and>
         signals_empty r0 \<and>
         \<not> usable (converse E 1 (converse_request ALT_SIMPLIFIED_PROMPT ''patientFile'' pdf_bytes)) \<and>
         converse E 2 (converse_request ALT_DIFFERENT_MODEL ''medicalRecord'' pdf_bytes) = Inl e
         \<longrightarrow>
         obtain_response E pdf_content =
           (Continue r0,
            [first_request (utf8_decode_ignore E (take 8 pdf_bytes)) pdf_bytes,
             converse_request ALT_SIMPLIFIED_PROMPT ''patientFile'' pdf_bytes,
             converse_request ALT_DIFFERENT_MODEL ''medicalRecord'' pdf_bytes]))"
proof (intro conjI allI impI)
  show "(\<exists>info. fst (extract_patient_data_with_claude_pdf_support E pdf_content) =
              PDict [(''debugInfo'', PStr info), (''firstName'', PStr []),
                     (''lastName'', PStr []), (''dateOfBirth'', PStr [])])
    \<or> (\<exists>chosen calls.
          obtain_response E pdf_content = (Continue chosen, calls) \<and>
          CHR ''{'' \<in> set chosen \<and> CHR ''}'' \<in> set chosen \<and>
          json_loads E (PStr (slice chosen (str_find CHR ''{'' chosen)
                                           (str_rfind CHR ''}'' chosen + 1))) =
            Inr (fst (extract_patient_data_with_claude_pdf_support E pdf_content)))"
    using extract_result_parsed [of E pdf_content] by (simp add: error_record_def)
next
  fix e
  assume "b64decode E (PStr pdf_content) = Inl e"
  then show "extract_patient_data_with_claude_pdf_support E pdf_content =
           (PDict [(''debugInfo'', PStr (''Bedrock Claude PDF support error: '' @ msg e)),
                   (''firstName'', PStr []), (''lastName'', PStr []),
                   (''dateOfBirth'', PStr [])], [])"
    by (simp add: extract_of_obtain obtain_response_def error_record_def)
next
  fix pdf_bytes e
  assume "b64decode E (PStr pdf_content) = Inr pdf_bytes \<and> prefix ''%PDF-'' pdf_bytes \<and>
         converse E 0 (first_request (utf8_decode_ignore E (take 8 pdf_bytes)) pdf_bytes) = Inl e"
  then show "extract_patient_data_with_claude_pdf_support E pdf_content =
           (PDict [(''debugInfo'', PStr (''Bedrock Claude PDF support error: '' @ msg e)),
                   (''firstName'', PStr []), (''lastName'', PStr []),
                   (''dateOfBirth'', PStr [])],
            [first_request (utf8_decode_ignore E (take 8 pdf_bytes)) pdf_bytes])"
    by (simp add: extract_of_obtain obtain_response_def error_record_def)
next
  fix pdf_bytes r0 e
  assume h: "b64decode E (PStr pdf_content) = Inr pdf_bytes \<and> prefix ''%PDF-'' pdf_bytes \<and>
         converse E 0 (first_request (utf8_decode_ignore E (take 8 pdf_bytes)) pdf_bytes) = Inr r0 \<and>
         signals_empty r0 \<and>
         converse E 1 (converse_request ALT_SIMPLIFIED_PROMPT ''patientFile'' pdf_bytes) = Inl e"
  then have "obtain_response E pdf_content = (if usable (converse E 1 (converse_request ALT_SIMPLIFIED_PROMPT ''patientFile'' pdf_bytes))
      then (Continue (projr (converse E 1
                       (converse_request ALT_SIMPLIFIED_PROMPT ''patientFile'' pdf_bytes))),
            [first_request (utf8_decode_ignore E (take 8 pdf_bytes)) pdf_bytes,
             converse_request ALT_SIMPLIFIED_PROMPT ''patientFile'' pdf_bytes])
      else if usable (converse E 2 (converse_request ALT_DIFFERENT_MODEL ''medicalRecord'' pdf_bytes))
      then (Continue (projr (converse E 2
                       (converse_request ALT_DIFFERENT_MODEL ''medicalRecord'' pdf_bytes))),
            [first_request (utf8_decode_ignore E (take 8 pdf_bytes)) pdf_bytes,
             converse_request ALT_SIMPLIFIED_PROMPT ''patientFile'' pdf_bytes,
             converse_request ALT_DIFFERENT_MODEL ''medicalRecord'' pdf_bytes])
      else (Continue r0,
            [first_request (utf8_decode_ignore E (take 8 pdf_bytes)) pdf_bytes,
             converse_request ALT_SIMPLIFIED_PROMPT ''patientFile'' pdf_bytes,
             converse_request ALT_DIFFERENT_MODEL ''medicalRecord'' pdf_bytes]))"
    using obtain_response_retries [of E pdf_content pdf_bytes r0] by blast
  with h show "obtain_response E pdf_content =
           (if usable (converse E 2 (converse_request ALT_DIFFERENT_MODEL ''medicalRecord'' pdf_bytes))
            then Continue (projr (converse E 2
                            (converse_request ALT_DIFFERENT_MODEL ''medicalRecord'' pdf_bytes)))
            else Continue r0,
            [first_request (utf8_decode_ignore E (take 8 pdf_bytes)) pdf_bytes,
             converse_request ALT_SIMPLIFIED_PROMPT ''patientFile'' pdf_bytes,
             converse_request ALT_DIFFERENT_MODEL ''medicalRecord'' pdf_bytes])"
    by (simp add: usable_Inl)
next
  fix pdf_bytes r0 e
  assume h: "b64decode E (PStr pdf_content) = Inr pdf_bytes \<and> prefix ''%PDF-'' pdf_bytes \<and>
         converse E 0 (first_request (utf8_decode_ignore E (take 8 pdf_bytes)) pdf_bytes) = Inr r0 \<and>
         signals_empty r0 \<and>
         \<not> usable (converse E 1 (converse_request ALT_SIMPLIFIED_PROMPT ''patientFile'' pdf_bytes)) \<and>
         converse E 2 (converse_request ALT_DIFFERENT_MODEL ''medicalRecord'' pdf_bytes) = Inl e"
  then show "obtain_response E pdf_content =
           (Continue r0,
            [first_request (utf8_decode_ignore E (take 8 pdf_bytes)) pdf_bytes,
             converse_request ALT_SIMPLIFIED_PROMPT ''patientFile'' pdf_bytes,
             converse_request ALT_DIFFERENT_MODEL ''medicalRecord'' pdf_bytes])"
    using obtain_response_retries [of E pdf_content pdf_bytes r0] by (simp add: usable_Inl)
qed

text \<open>
  The first inference call raises; and, for another script, the first response signals
  emptiness and both retries raise.
\<close>

theorem extractor_never_raises_witness:
  "extract_patient_data_with_claude_pdf_support
     (mock_env [Inl (Exn OtherException ''ThrottlingException: too many requests'')])
     ''JVBERi0xLjQ='' =
   (PDict [(''debugInfo'',
              PStr ''Bedrock Claude PDF support error: ThrottlingException: too many requests''),
           (''firstName'', PStr []), (''lastName'', PStr []), (''dateOfBirth'', PStr [])],
    [converse_request STANDARD ''patientDocument'' ''%PDF-1.4''])
   \<and> obtain_response
       (mock_env [Inr ''The page is blank'', Inl (Exn OtherException ''ThrottlingException''),
                  Inl (Exn OtherException ''ServiceUnavailable'')]) ''JVBERi0xLjQ='' =
     (Continue ''The page is blank'',
      [converse_request STANDARD ''patientDocument'' ''%PDF-1.4'',
       converse_request ALT_SIMPLIFIED_PROMPT ''patientFile'' ''%PDF-1.4'',
       converse_request ALT_DIFFERENT_MODEL ''medicalRecord'' ''%PDF-1.4''])"
proof -
  let ?E = "mock_env [Inl (Exn OtherException ''ThrottlingException: too many requests'')]"
  let ?F = "mock_env [Inr ''The page is blank'', Inl (Exn OtherException ''ThrottlingException''),
                      Inl (Exn OtherException ''ServiceUnavailable'')]"
  have h: "b64decode ?E (PStr ''JVBERi0xLjQ='') = Inr ''%PDF-1.4'' \<and> prefix ''%PDF-'' ''%PDF-1.4'' \<and>
      converse ?E 0 (first_request (utf8_decode_ignore ?E (take 8 ''%PDF-1.4'')) ''%PDF-1.4'') =
        Inl (Exn OtherException ''ThrottlingException: too many requests'')"
    by (simp add: mock_eval)
  have f: "first_request (utf8_decode_ignore ?E (take 8 ''%PDF-1.4'')) ''%PDF-1.4'' =
             converse_request STANDARD ''patientDocument'' ''%PDF-1.4''"
    by (simp add: mock_eval)
  from extractor_never_raises [of ?E "''JVBERi0xLjQ=''"] h
  have "extract_patient_data_with_claude_pdf_support ?E ''JVBERi0xLjQ='' =
          (PDict [(''debugInfo'', PStr (''Bedrock Claude PDF support error: ''
                     @ msg (Exn OtherException ''ThrottlingException: too many requests''))),
                  (''firstName'', PStr []), (''lastName'', PStr []),
                  (''dateOfBirth'', PStr [])],
           [first_request (utf8_decode_ignore ?E (take 8 ''%PDF-1.4'')) ''%PDF-1.4''])"
    by blast
  with f have p1: "extract_patient_data_with_claude_pdf_support ?E ''JVBERi0xLjQ='' =
      (PDict [(''debugInfo'',
              PStr ''Bedrock Claude PDF support error: ThrottlingException: too many requests''),
           (''firstName'', PStr []), (''lastName'', PStr []), (''dateOfBirth'', PStr [])],
       [converse_request STANDARD ''patientDocument'' ''%PDF-1.4''])"
    by simp
  have g: "b64decode ?F (PStr ''JVBERi0xLjQ='') = Inr ''%PDF-1.4'' \<and> prefix ''%PDF-'' ''%PDF-1.4'' \<and>
      converse ?F 0 (first_request (utf8_decode_ignore ?F (take 8 ''%PDF-1.4'')) ''%PDF-1.4'') =
        Inr ''The page is blank'' \<and>
      signals_empty ''The page is blank'' \<and>
      converse ?F 1 (converse_request ALT_SIMPLIFIED_PROMPT ''patientFile'' ''%PDF-1.4'') =
        Inl (Exn OtherException ''ThrottlingException'')"
    by code_simp
  have u: "\<not> usable (converse ?F 2 (converse_request ALT_DIFFERENT_MODEL ''medicalRecord'' ''%PDF-1.4''))"
    by code_simp
  have f2: "first_request (utf8_decode_ignore ?F (take 8 ''%PDF-1.4'')) ''%PDF-1.4'' =
             converse_request STANDARD ''patientDocument'' ''%PDF-1.4''"
    by (simp add: mock_eval)
  from extractor_never_raises [of ?F "''JVBERi0xLjQ=''"] g
  have "obtain_response ?F ''JVBERi0xLjQ='' =
          (if usable (converse ?F 2 (converse_request ALT_DIFFERENT_MODEL ''medicalRecord'' ''%PDF-1.4''))
            then Continue (projr (converse ?F 2
                            (converse_request ALT_DIFFERENT_MODEL ''medicalRecord'' ''%PDF-1.4'')))
            else Continue ''The page is blank'',
            [first_request (utf8_decode_ignore ?F (take 8 ''%PDF-1.4'')) ''%PDF-1.4'',
             converse_request ALT_SIMPLIFIED_PROMPT ''patientFile'' ''%PDF-1.4'',
             converse_request ALT_DIFFERENT_MODEL ''medicalRecord'' ''%PDF-1.4''])"
    by blast
  with u f2 have p2: "obtain_response ?F ''JVBERi0xLjQ='' =
     (Continue ''The page is blank'',
      [converse_request STANDARD ''patientDocument'' ''%PDF-1.4'',
       converse_request ALT_SIMPLIFIED_PROMPT ''patientFile'' ''%PDF-1.4'',
       converse_request ALT_DIFFERENT_MODEL ''medicalRecord'' ''%PDF-1.4''])"
    by simp
  from p1 p2 show ?thesis
    by blast
qed

text \<open>
  Against C7 as stated: the first response signals emptiness and both retries raise; the
  extractor returns the object parsed from the first response, which has a name, no
  \<open>debugInfo\<close> and a key outside the four fields.
\<close>

theorem extractor_never_raises_counterexample:
  \<open>converse (mock_env [Inr ''{"firstName": "Ann", "note": "some fields are blank"}'',
                       Inl (Exn OtherException ''ThrottlingException''),
                       Inl (Exn OtherException ''ThrottlingException'')]) 1
       (converse_request ALT_SIMPLIFIED_PROMPT ''patientFile'' ''%PDF-1.4'') =
     Inl (Exn OtherException ''ThrottlingException'')
   \<and> extract_patient_data_with_claude_pdf_support
        (mock_env [Inr ''{"firstName": "Ann", "note": "some fields are blank"}'',
                   Inl (Exn OtherException ''ThrottlingException''),
                   Inl (Exn OtherException ''ThrottlingException'')]) ''JVBERi0xLjQ='' =
       (PDict [(''firstName'', PStr ''Ann''), (''note'', PStr ''some fields are blank'')],
        [converse_request STANDARD ''patientDocument'' ''%PDF-1.4'',
         converse_request ALT_SIMPLIFIED_PROMPT ''patientFile'' ''%PDF-1.4'',
         converse_request ALT_DIFFERENT_MODEL ''medicalRecord'' ''%PDF-1.4''])\<close>
  by code_simp

section \<open>Lemmas on the handler\<close>

lemma response_headers_http:
  "response_headers (http_response status hdrs body) = Some hdrs"
  by (simp add: response_headers_def http_response_def)

lemma response_headers_error:
  "response_headers (error_response E status err) = Some cors_headers"
  by (simp add: error_response_def response_headers_http)

lemma respond_headers:
  "respond E event context s patient_data = Inr response \<Longrightarrow>
   map_of event ''httpMethod'' \<noteq> None \<Longrightarrow>
   response_headers response = Some cors_headers"
  by (auto simp: respond_def Let_def response_headers_http split: sum.splits if_splits)

lemma handler_body_headers:
  assumes "map_of event ''httpMethod'' = Some http_method"
    and "handler_body E event context = (Inr response, calls)"
  shows "response_headers response =
           Some (if http_method = PStr ''OPTIONS'' then preflight_headers else cors_headers)"
  using assms
  by (auto simp: handler_body_def Let_def dict_get_def response_headers_http
      response_headers_error
      split: sum.splits if_splits prod.splits pyval.splits dest: respond_headers)

lemma handler_body_Inl_not_OPTIONS:
  assumes "map_of event ''httpMethod'' = Some http_method"
    and "handler_body E event context = (Inl e, calls)"
  shows "http_method \<noteq> PStr ''OPTIONS''"
  using assms
  by (auto simp: handler_body_def Let_def dict_get_def)

lemma dict_get_present:
  "dict_get d k dflt = v \<Longrightarrow> v \<noteq> dflt \<Longrightarrow> map_of d k = Some v"
  by (auto simp: dict_get_def split: option.splits)

section \<open>Direct invocation\<close>

text \<open>
  C1. The claim is that an event without \<^verbatim>\<open>httpMethod\<close> is processed by the extractor
  and answered with the raw result mapping. The handler does otherwise: the method read
  with the default \<^verbatim>\<open>''\<close> is not \<^verbatim>\<open>'POST'\<close>, so every such event gets the 405 response in
  its HTTP shape, and no request is sent to the service. The branch that returns the raw
  mapping is never reached.
\<close>

theorem direct_invocation_rejected:
  assumes "map_of event ''httpMethod'' = None"
  shows "handler E event context =
           (PDict [(''statusCode'', PInt 405),
                   (''headers'', cors_headers),
                   (''body'', PStr (json_dumps E
                      (PDict [(''success'', PBool False),
                              (''error'', PStr ''Method not allowed. Only POST requests are supported.'')])))],
            [])"
  using assms
  by (simp add: handler_def handler_body_def Let_def dict_get_def error_response_def
      http_response_def failure_result_def)

theorem direct_invocation_rejected_witness:
  \<open>handler (mock_env [Inr ''{"firstName": "Jane", "lastName": "Doe", "dateOfBirth": "1990-01-15"}''])
       [(''body'', PStr ''{"pdfContent": "JVBERi0xLjQ="}'')] None =
     (PDict [(''statusCode'', PInt 405),
             (''headers'', cors_headers),
             (''body'', PStr (mock_json_dumps
                (PDict [(''success'', PBool False),
                        (''error'', PStr ''Method not allowed. Only POST requests are supported.'')])))],
      [])\<close>
proof -
  have m: \<open>map_of [(''body'', PStr ''{"pdfContent": "JVBERi0xLjQ="}'')] ''httpMethod'' = None\<close>
    by simp
  from direct_invocation_rejected [OF m] show ?thesis
    by (simp add: mock_selectors)
qed

section \<open>The headers of the responses\<close>

text \<open>
  C5 (as amended). Every response to an event that has \<^verbatim>\<open>httpMethod\<close> carries fixed
  headers. The preflight response (method \<^verbatim>\<open>OPTIONS\<close>) carries allow-origin "*",
  allow-methods "POST, OPTIONS" and allow-headers "Content-Type, Authorization". Every
  other response (405, 400, 200, 500) carries one and the same set: the JSON content type,
  allow-origin "*", allow-methods "POST, OPTIONS, GET" and allow-headers "Content-Type,
  X-Amz-Date, Authorization, X-Api-Key, X-Amz-Security-Token".
\<close>

theorem response_cors_headers:
  assumes "map_of event ''httpMethod'' = Some http_method"
  shows "response_headers (fst (handler E event context)) =
           Some (if http_method = PStr ''OPTIONS''
                 then PDict [(''Access-Control-Allow-Origin'', PStr ''*''),
                             (''Access-Control-Allow-Methods'', PStr ''POST, OPTIONS''),
                             (''Access-Control-Allow-Headers'', PStr ''Content-Type, Authorization'')]
                 else PDict [(''Content-Type'', PStr ''application/json''),
                             (''Access-Control-Allow-Origin'', PStr ''*''),
                             (''Access-Control-Allow-Methods'', PStr ''POST, OPTIONS, GET''),
                             (''Access-Control-Allow-Headers'',
                                PStr ''Content-Type, X-Amz-Date, Authorization, X-Api-Key, X-Amz-Security-Token'')])"
proof (cases "handler_body E event context")
  case (Pair outcome calls)
  show ?thesis
  proof (cases outcome)
    case (Inl e)
    with Pair assms handler_body_Inl_not_OPTIONS [OF assms, of E _ e calls] show ?thesis
      by (simp add: handler_def Let_def response_headers_http cors_headers_def)
  next
    case (Inr response)
    with Pair handler_body_headers [OF assms, of E _ response calls] show ?thesis
      by (simp add: handler_def preflight_headers_def cors_headers_def)
  qed
qed

theorem response_cors_headers_witness:
  "response_headers (fst (handler (mock_env []) [(''httpMethod'', PStr ''GET'')] None)) =
     Some (PDict [(''Content-Type'', PStr ''application/json''),
                  (''Access-Control-Allow-Origin'', PStr ''*''),
                  (''Access-Control-Allow-Methods'', PStr ''POST, OPTIONS, GET''),
                  (''Access-Control-Allow-Headers'',
                     PStr ''Content-Type, X-Amz-Date, Authorization, X-Api-Key, X-Amz-Security-Token'')])"
proof -
  have m: "map_of [(''httpMethod'', PStr ''GET'')] ''httpMethod'' = Some (PStr ''GET'')"
    by simp
  from response_cors_headers [OF m, of "mock_env []" None] show ?thesis
    by simp
qed

text \<open>
  Against C5 as stated: the headers of the preflight response are not those of the other
  responses; its allow-methods does not cover \<^verbatim>\<open>GET\<close> and its allow-headers does not
  cover the API key.
\<close>

theorem preflight_headers_counterexample:
  "response_headers (fst (handler (mock_env []) [(''httpMethod'', PStr ''OPTIONS'')] None)) =
     Some (PDict [(''Access-Control-Allow-Origin'', PStr ''*''),
                  (''Access-Control-Allow-Methods'', PStr ''POST, OPTIONS''),
                  (''Access-Control-Allow-Headers'', PStr ''Content-Type, Authorization'')])
   \<and> \<not> str_contains ''GET'' ''POST, OPTIONS''
   \<and> \<not> str_contains ''X-Api-Key'' ''Content-Type, Authorization''
   \<and> response_headers (fst (handler (mock_env []) [(''httpMethod'', PStr ''OPTIONS'')] None)) \<noteq>
       response_headers (fst (handler (mock_env []) [(''httpMethod'', PStr ''GET'')] None))"
  by code_simp

section \<open>A payload that does not decode\<close>

text \<open>
  C9 (as amended). For a POST event whose body parses to an object with a non-empty string under
  \<^verbatim>\<open>pdfContent\<close>, when the base64 decoding of that string raises, the handler returns
  status 200 with the fixed headers; the result mapping has \<open>success\<close> true, and its
  \<open>debugInfo\<close> and that of \<open>patientData\<close> are "Bedrock Claude PDF support error: "
  followed by the message of the decoding error, the name and date fields being empty. No
  request is sent to the service.
\<close>

theorem invalid_base64_absorbed:
  assumes "dict_get event ''httpMethod'' (PStr []) = PStr ''POST''"
    and "truthy (dict_get event ''body'' (PStr []))"
    and "decode_body E event (dict_get event ''body'' (PStr [])) = Inr decoded"
    and "json_loads E decoded = Inr (PDict request_data)"
    and "map_of request_data ''pdfContent'' = Some (PStr pdf_content)"
    and "pdf_content \<noteq> []"
    and "b64decode E (PStr pdf_content) = Inl e"
  shows "handler E event context =
           (PDict [(''statusCode'', PInt 200),
                   (''headers'', cors_headers),
                   (''body'', PStr (json_dumps E
                      (PDict [(''success'', PBool True),
                              (''message'', PStr ''PDF received and processed successfully''),
                              (''contentLength'', PInt (int (length pdf_content))),
                              (''timestamp'',
                                 PStr (case context of Some aws_request_id \<Rightarrow> aws_request_id
                                                     | None \<Rightarrow> ''unknown'')),
                              (''debugInfo'',
                                 PStr (''Bedrock Claude PDF support error: '' @ msg e)),
                              (''patientData'',
                                 PDict [(''debugInfo'',
                                           PStr (''Bedrock Claude PDF support error: '' @ msg e)),
                                        (''firstName'', PStr []), (''lastName'', PStr []),
                                        (''dateOfBirth'', PStr [])])])))],
            [])"
proof -
  define info where "info = ''Bedrock Claude PDF support error: '' @ msg e"
  have m: "map_of event ''httpMethod'' = Some (PStr ''POST'')"
    using dict_get_present [OF assms(1)] by simp
  have x: "extract_patient_data_with_claude_pdf_support E pdf_content = (error_record info, [])"
    using assms(7) by (simp add: extract_of_obtain obtain_response_def info_def)
  have r: "respond E event context pdf_content (error_record info) =
           Inr (http_response 200 cors_headers (json_dumps E
                  (processing_result pdf_content context (PStr info) (error_record info))))"
    using m by (simp add: respond_def py_get_def dict_get_def error_record_def)
  have b: "handler_body E event context =
             (respond E event context pdf_content (error_record info), [])"
    using assms(1-6) x by (simp add: handler_body_def py_get_def dict_get_def [of request_data])
  have "handler E event context =
          (http_response 200 cors_headers (json_dumps E
             (processing_result pdf_content context (PStr info) (error_record info))), [])"
    by (simp add: handler_def b r)
  then show ?thesis
    by (simp add: http_response_def processing_result_def error_record_def info_def)
qed

theorem invalid_base64_absorbed_witness:
  \<open>handler (mock_env [])
       [(''httpMethod'', PStr ''POST''), (''body'', PStr ''{"pdfContent": "abc"}'')]
       (Some ''request-1'') =
     (PDict [(''statusCode'', PInt 200),
             (''headers'', cors_headers),
             (''body'', PStr (mock_json_dumps
                (PDict [(''success'', PBool True),
                        (''message'', PStr ''PDF received and processed successfully''),
                        (''contentLength'', PInt 3),
                        (''timestamp'', PStr ''request-1''),
                        (''debugInfo'',
                           PStr ''Bedrock Claude PDF support error: Incorrect padding''),
                        (''patientData'',
                           PDict [(''debugInfo'',
                                     PStr ''Bedrock Claude PDF support error: Incorrect padding''),
                                  (''firstName'', PStr []), (''lastName'', PStr []),
                                  (''dateOfBirth'', PStr [])])])))],
      [])\<close>
proof -
  let ?event = \<open>[(''httpMethod'', PStr ''POST''), (''body'', PStr ''{"pdfContent": "abc"}'')]\<close>
  let ?E = "mock_env []"
  have h1: "dict_get ?event ''httpMethod'' (PStr []) = PStr ''POST''"
    by (simp add: dict_get_def)
  have h2: "truthy (dict_get ?event ''body'' (PStr []))"
    by (simp add: dict_get_def)
  have h3: \<open>decode_body ?E ?event (dict_get ?event ''body'' (PStr [])) =
              Inr (PStr ''{"pdfContent": "abc"}'')\<close>
    by (simp add: decode_body_def dict_get_def)
  have h4: \<open>json_loads ?E (PStr ''{"pdfContent": "abc"}'') =
              Inr (PDict [(''pdfContent'', PStr ''abc'')])\<close>
    by (simp add: mock_eval)
  have h5: "map_of [(''pdfContent'', PStr ''abc'')] ''pdfContent'' = Some (PStr ''abc'')"
    by simp
  have h6: "''abc'' \<noteq> []"
    by simp
  have h7: "b64decode ?E (PStr ''abc'') = Inl (Exn ValueError ''Incorrect padding'')"
    by (simp add: mock_eval)
  from invalid_base64_absorbed [OF h1 h2 h3 h4 h5 h6 h7, of "Some ''request-1''"] show ?thesis
    by (simp add: mock_selectors)
qed

text \<open>
  Against C9 as stated: \<^verbatim>\<open>!!!!\<close> is not valid base64, yet the decoder does not raise on
  it; it discards the four characters and returns no bytes. The extractor then fails the
  header check, and the \<open>debugInfo\<close> of the 200 response is "Invalid PDF file - missing
  PDF header".
\<close>

theorem invalid_base64_absorbed_counterexample:
  \<open>b64decode (mock_env []) (PStr ''!!!!'') = Inr []
   \<and> extract_patient_data_with_claude_pdf_support (mock_env []) ''!!!!'' =
       (PDict [(''debugInfo'', PStr ''Invalid PDF file - missing PDF header''),
               (''firstName'', PStr []), (''lastName'', PStr []), (''dateOfBirth'', PStr [])], [])
   \<and> \<not> prefix ''Bedrock Claude PDF support error:'' ''Invalid PDF file - missing PDF header''
   \<and> handler (mock_env [])
         [(''httpMethod'', PStr ''POST''), (''body'', PStr ''{"pdfContent": "!!!!"}'')]
         (Some ''request-1'') =
       (PDict [(''statusCode'', PInt 200),
               (''headers'',
                  PDict [(''Content-Type'', PStr ''application/json''),
                         (''Access-Control-Allow-Origin'', PStr ''*''),
                         (''Access-Control-Allow-Methods'', PStr ''POST, OPTIONS, GET''),
                         (''Access-Control-Allow-Headers'',
                            PStr ''Content-Type, X-Amz-Date, Authorization, X-Api-Key, X-Amz-Security-Token'')]),
               (''body'',
                  PStr ''{"success": true, "message": "PDF received and processed successfully", "contentLength": 4, "timestamp": "request-1", "debugInfo": "Invalid PDF file - missing PDF header", "patientData": {"debugInfo": "Invalid PDF file - missing PDF header", "firstName": "", "lastName": "", "dateOfBirth": ""}}'')],
        [])\<close>
  by code_simp

section \<open>A body that is not a JSON object\<close>

text \<open>
  C10. For a POST event whose body parses to a JSON value that is not an object, the field
  lookup raises \<^verbatim>\<open>AttributeError\<close>, which only the top-level handler catches: the
  response has status 500 and the error text "Internal server error: " followed by the
  message of the exception, not a 400 validation error.
\<close>

theorem non_object_body_internal_error:
  assumes "dict_get event ''httpMethod'' (PStr []) = PStr ''POST''"
    and "truthy (dict_get event ''body'' (PStr []))"
    and "decode_body E event (dict_get event ''body'' (PStr [])) = Inr decoded"
    and "json_loads E decoded = Inr request_data"
    and "\<forall>d. request_data \<noteq> PDict d"
  shows "handler E event context =
           (PDict [(''statusCode'', PInt 500),
                   (''headers'', cors_headers),
                   (''body'', PStr (json_dumps E
                      (PDict [(''success'', PBool False),
                              (''error'',
                                 PStr (''Internal server error: '' @ [CHR 0x27]
                                       @ type_name request_data @ [CHR 0x27]
                                       @ '' object has no attribute '' @ [CHR 0x27] @ ''get''
                                       @ [CHR 0x27]))])))],
            [])"
proof -
  define err where
    "err = Exn AttributeError
             ([CHR 0x27] @ type_name request_data @ [CHR 0x27]
              @ '' object has no attribute '' @ [CHR 0x27] @ ''get'' @ [CHR 0x27])"
  have m: "map_of event ''httpMethod'' = Some (PStr ''POST'')"
    using dict_get_present [OF assms(1)] by simp
  have g: "py_get request_data ''pdfContent'' (PStr []) = Inl err"
    using assms(5) by (cases request_data) (simp_all add: py_get_def err_def)
  have b: "handler_body E event context = (Inl err, [])"
    using assms(1-4) g by (simp add: handler_body_def)
  have "handler E event context =
          (http_response 500 cors_headers
             (json_dumps E (failure_result (''Internal server error: '' @ msg err))), [])"
    using m by (simp add: handler_def b)
  then show ?thesis
    by (simp add: http_response_def failure_result_def err_def)
qed

theorem non_object_body_internal_error_witness:
  "handler (mock_env []) [(''httpMethod'', PStr ''POST''), (''body'', PStr ''[1, 2]'')] None =
     (PDict [(''statusCode'', PInt 500),
             (''headers'', cors_headers),
             (''body'', PStr (mock_json_dumps
                (PDict [(''success'', PBool False),
                        (''error'',
                           PStr (''Internal server error: '' @ [CHR 0x27] @ ''list'' @ [CHR 0x27]
                                 @ '' object has no attribute '' @ [CHR 0x27] @ ''get''
                                 @ [CHR 0x27]))])))],
      [])"
proof -
  let ?event = "[(''httpMethod'', PStr ''POST''), (''body'', PStr ''[1, 2]'')]"
  let ?E = "mock_env []"
  have h1: "dict_get ?event ''httpMethod'' (PStr []) = PStr ''POST''"
    by (simp add: dict_get_def)
  have h2: "truthy (dict_get ?event ''body'' (PStr []))"
    by (simp add: dict_get_def)
  have h3: "decode_body ?E ?event (dict_get ?event ''body'' (PStr [])) = Inr (PStr ''[1, 2]'')"
    by (simp add: decode_body_def dict_get_def)
  have h4: "json_loads ?E (PStr ''[1, 2]'') = Inr (PList [PInt 1, PInt 2])"
    by (simp add: mock_eval)
  have h5: "\<forall>d. PList [PInt 1, PInt 2] \<noteq> PDict d"
    by simp
  from non_object_body_internal_error [OF h1 h2 h3 h4 h5, of None] show ?thesis
    by (simp add: mock_selectors)
qed

end
